theory Spec2Isabelle
  imports Complex_Main "HOL-Library.Log_Nat"
begin

section \<open>Python strings\<close>

text \<open>
  Strings are \<open>char list\<close>; the development covers ASCII text. The character
  classes are those of Python's \<open>str\<close> methods and of the \<open>re\<close> module on that range:
  \<open>\s\<close> and \<open>str.strip\<close> treat 0x09-0x0D, 0x1C-0x1F and the blank as white space,
  \<open>\w\<close> is a letter, a digit or the underscore. The built-ins \<open>float\<close> and \<open>int\<close>
  trim a narrower class: 0x09-0x0D and the blank.
\<close>

definition is_space :: "char \<Rightarrow> bool" where
  "is_space c = (c \<in> set [CHR 0x09, CHR 0x0A, CHR 0x0B, CHR 0x0C, CHR 0x0D,
                            CHR 0x1C, CHR 0x1D, CHR 0x1E, CHR 0x1F, CHR '' ''])"

definition is_digit :: "char \<Rightarrow> bool" where
  "is_digit c = (c \<in> set ''0123456789'')"

definition is_alpha :: "char \<Rightarrow> bool" where
  "is_alpha c = (c \<in> set ''abcdefghijklmnopqrstuvwxyzABCDEFGHIJKLMNOPQRSTUVWXYZ'')"

definition is_word :: "char \<Rightarrow> bool" where
  "is_word c = (is_alpha c \<or> is_digit c \<or> c = CHR ''_'')"

definition lower_char :: "char \<Rightarrow> char" where
  "lower_char c =
     (case map_of (zip ''ABCDEFGHIJKLMNOPQRSTUVWXYZ'' ''abcdefghijklmnopqrstuvwxyz'') c of
        Some d \<Rightarrow> d
      | None \<Rightarrow> c)"

definition lower :: "string \<Rightarrow> string" where
  "lower s = map lower_char s"

definition lstrip :: "string \<Rightarrow> string" where
  "lstrip s = dropWhile is_space s"

definition rstrip :: "string \<Rightarrow> string" where
  "rstrip s = rev (dropWhile is_space (rev s))"

definition strip :: "string \<Rightarrow> string" where
  "strip s = rstrip (lstrip s)"

definition is_ascii_space :: "char \<Rightarrow> bool" where
  "is_ascii_space c = (c \<in> set [CHR 0x09, CHR 0x0A, CHR 0x0B, CHR 0x0C, CHR 0x0D, CHR '' ''])"

definition strip_ascii :: "string \<Rightarrow> string" where
  "strip_ascii s = rev (dropWhile is_ascii_space (rev (dropWhile is_ascii_space s)))"

definition starts_with :: "string \<Rightarrow> string \<Rightarrow> bool" where
  "starts_with p s = (take (length p) s = p)"

text \<open>\<open>sub in s\<close>\<close>

fun contains :: "string \<Rightarrow> string \<Rightarrow> bool" where
  "contains sub [] = (sub = [])"
| "contains sub (c # cs) = (starts_with sub (c # cs) \<or> contains sub cs)"

text \<open>\<open>s.replace(old, new)\<close> for a non-empty \<open>old\<close>: leftmost occurrences, not overlapping.\<close>

function str_replace :: "string \<Rightarrow> string \<Rightarrow> string \<Rightarrow> string" where
  "str_replace old new [] = []"
| "str_replace old new (c # cs) =
     (if old \<noteq> [] \<and> starts_with old (c # cs)
      then new @ str_replace old new (drop (length old) (c # cs))
      else c # str_replace old new cs)"
  by pat_completeness auto
termination
  by (relation "measure (\<lambda>(old, new, s). length s)") (auto simp: neq_Nil_conv)

text \<open>\<open>sep.join(xs)\<close>\<close>

fun join :: "string \<Rightarrow> string list \<Rightarrow> string" where
  "join sep [] = []"
| "join sep [x] = x"
| "join sep (x # y # ys) = x @ sep @ join sep (y # ys)"


section \<open>Errors and values\<close>

text \<open>
  Every exception the modelled functions can raise is a value; a function that may raise
  returns \<open>error + 'a\<close>, with \<open>Inl\<close> the exception. \<open>DeliveryError\<close> stands for whatever
  the mail transport raises.
\<close>

datatype error =
    ValueError string
  | TypeError
  | AttributeError
  | IndexError
  | KeyError
  | ZeroDivisionError
  | DeliveryError

definition bind :: "error + 'a \<Rightarrow> ('a \<Rightarrow> error + 'b) \<Rightarrow> error + 'b" where
  "bind m f = (case m of Inl e \<Rightarrow> Inl e | Inr x \<Rightarrow> f x)"

text \<open>
  A spreadsheet cell as pandas hands it over: text, a number, or the blank (NaN).
\<close>

datatype cell = Text string | Number rat | Blank

text \<open>
  A Python \<open>float\<close> is a binary64 number: a finite value, an infinity or NaN. A finite
  value is kept as the rational it denotes. The two zeros are one value here: they
  compare equal, and none of the operations below tells them apart (a division by either
  raises).
\<close>

datatype pyfloat = Fin rat | PInf | NInf | NaN

text \<open>
  The finite binary64 numbers are the multiples \<open>k * 2 ^ (e - 52)\<close> with
  \<open>\<bar>k\<bar> < 2 ^ 53\<close> and \<open>- 1022 \<le> e \<le> 1023\<close>. Every operation returns the exact result
  rounded to the nearest of them, a tie to the one with the even \<open>k\<close>, and an infinity
  when the rounded result reaches \<open>2 ^ 1024\<close>.
\<close>

definition round_half_even :: "rat \<Rightarrow> int" where
  "round_half_even x =
     (let f = \<lfloor>x\<rfloor>; d = x - of_int f
      in if d < 1 / 2 then f
         else if 1 / 2 < d then f + 1
         else if even f then f else f + 1)"

definition pow2 :: "int \<Rightarrow> rat" where
  "pow2 e = (if 0 \<le> e then 2 ^ nat e else 1 / 2 ^ nat (- e))"

text \<open>For \<open>0 < a\<close>, the \<open>e\<close> with \<open>2 ^ e \<le> a < 2 ^ (e + 1)\<close>.\<close>

definition exponent :: "rat \<Rightarrow> int" where
  "exponent a = (if 1 \<le> a then bitlen \<lfloor>a\<rfloor> - 1 else - bitlen (\<lceil>1 / a\<rceil> - 1))"

text \<open>The distance between the binary64 numbers next to \<open>a\<close>; from \<open>2 ^ - 1022\<close> down it is fixed.\<close>

definition ulp :: "rat \<Rightarrow> rat" where
  "ulp a = pow2 (max (exponent a) (- 1022) - 52)"

definition to_float :: "rat \<Rightarrow> pyfloat" where
  "to_float r =
     (if r = 0 then Fin 0
      else (let y = of_int (round_half_even (r / ulp \<bar>r\<bar>)) * ulp \<bar>r\<bar>
            in if pow2 1024 \<le> y then PInf
               else if y \<le> - pow2 1024 then NInf
               else Fin y))"

fun fneg :: "pyfloat \<Rightarrow> pyfloat" where
  "fneg (Fin r) = Fin (- r)"
| "fneg PInf = NInf"
| "fneg NInf = PInf"
| "fneg NaN = NaN"

fun fabs :: "pyfloat \<Rightarrow> pyfloat" where
  "fabs (Fin r) = Fin \<bar>r\<bar>"
| "fabs PInf = PInf"
| "fabs NInf = PInf"
| "fabs NaN = NaN"

fun fadd :: "pyfloat \<Rightarrow> pyfloat \<Rightarrow> pyfloat" where
  "fadd NaN y = NaN"
| "fadd x NaN = NaN"
| "fadd (Fin a) (Fin b) = to_float (a + b)"
| "fadd (Fin a) y = y"
| "fadd x (Fin b) = x"
| "fadd PInf PInf = PInf"
| "fadd NInf NInf = NInf"
| "fadd PInf NInf = NaN"
| "fadd NInf PInf = NaN"

definition fsub :: "pyfloat \<Rightarrow> pyfloat \<Rightarrow> pyfloat" where
  "fsub x y = fadd x (fneg y)"

definition signed_inf :: "bool \<Rightarrow> pyfloat" where
  "signed_inf positive = (if positive then PInf else NInf)"

fun fmul :: "pyfloat \<Rightarrow> pyfloat \<Rightarrow> pyfloat" where
  "fmul NaN y = NaN"
| "fmul x NaN = NaN"
| "fmul (Fin a) (Fin b) = to_float (a * b)"
| "fmul (Fin a) PInf = (if a = 0 then NaN else signed_inf (0 < a))"
| "fmul (Fin a) NInf = (if a = 0 then NaN else signed_inf (a < 0))"
| "fmul PInf (Fin b) = (if b = 0 then NaN else signed_inf (0 < b))"
| "fmul NInf (Fin b) = (if b = 0 then NaN else signed_inf (b < 0))"
| "fmul PInf PInf = PInf"
| "fmul NInf NInf = PInf"
| "fmul PInf NInf = NInf"
| "fmul NInf PInf = NInf"

text \<open>\<open>x / y\<close> on floats: a zero divisor raises, whatever the dividend.\<close>

fun fdiv :: "pyfloat \<Rightarrow> pyfloat \<Rightarrow> error + pyfloat" where
  "fdiv x (Fin b) =
     (if b = 0 then Inl ZeroDivisionError
      else Inr (case x of
                  Fin a \<Rightarrow> to_float (a / b)
                | PInf \<Rightarrow> signed_inf (0 < b)
                | NInf \<Rightarrow> signed_inf (b < 0)
                | NaN \<Rightarrow> NaN))"
| "fdiv x NaN = Inr NaN"
| "fdiv (Fin a) y = Inr (Fin 0)"
| "fdiv x y = Inr NaN"

text \<open>\<open>x > 5\<close> on a float: false for NaN.\<close>

fun fgt :: "pyfloat \<Rightarrow> rat \<Rightarrow> bool" where
  "fgt (Fin r) k = (k < r)"
| "fgt PInf k = True"
| "fgt NInf k = False"
| "fgt NaN k = False"

text \<open>
  \<open>round(x, 2)\<close>: the value of the float is rounded to the nearest multiple of 1/100, a
  tie to the even one, and the float nearest to that decimal is returned; infinities and
  NaN are returned as they are.
\<close>

fun round2 :: "pyfloat \<Rightarrow> pyfloat" where
  "round2 (Fin r) = to_float (of_int (round_half_even (r * 100)) / 100)"
| "round2 x = x"


section \<open>The built-ins \<open>float\<close> and \<open>int\<close>\<close>

definition digit_val :: "char \<Rightarrow> nat" where
  "digit_val c = (case map_of (zip ''0123456789'' [0, 1, 2, 3, 4, 5, 6, 7, 8, 9]) c of
                    Some n \<Rightarrow> n | None \<Rightarrow> 0)"

definition nat_of_digits :: "string \<Rightarrow> nat" where
  "nat_of_digits ds = foldl (\<lambda>n c. 10 * n + digit_val c) 0 ds"

text \<open>
  A run of digits in which single underscores may separate digits; the digits read so
  far and the text left over.
\<close>

fun digitpart_rest :: "string \<Rightarrow> string \<Rightarrow> string \<times> string" where
  "digitpart_rest acc [] = (acc, [])"
| "digitpart_rest acc [c] = (if is_digit c then (acc @ [c], []) else (acc, [c]))"
| "digitpart_rest acc (c # d # cs) =
     (if is_digit c then digitpart_rest (acc @ [c]) (d # cs)
      else if c = CHR ''_'' \<and> is_digit d then digitpart_rest (acc @ [d]) cs
      else (acc, c # d # cs))"

definition digitpart :: "string \<Rightarrow> (string \<times> string) option" where
  "digitpart s =
     (case s of
        [] \<Rightarrow> None
      | c # cs \<Rightarrow> if is_digit c then Some (digitpart_rest [c] cs) else None)"

definition split_sign :: "string \<Rightarrow> bool \<times> string" where
  "split_sign s =
     (case s of
        [] \<Rightarrow> (False, [])
      | c # cs \<Rightarrow> if c = CHR ''-'' then (True, cs)
                  else if c = CHR ''+'' then (False, cs)
                  else (False, c # cs))"

text \<open>The exponent of a decimal literal: nothing, or \<open>e\<close>, a sign and digits to the end.\<close>

definition parse_exponent :: "string \<Rightarrow> int option" where
  "parse_exponent s =
     (case s of
        [] \<Rightarrow> Some 0
      | c # cs \<Rightarrow>
          if c = CHR ''e'' \<or> c = CHR ''E''
          then (let (neg, ds) = split_sign cs
                in case digitpart ds of
                     Some (e, []) \<Rightarrow>
                       Some (if neg then - int (nat_of_digits e) else int (nat_of_digits e))
                   | _ \<Rightarrow> None)
          else None)"

definition scale10 :: "rat \<Rightarrow> int \<Rightarrow> rat" where
  "scale10 m e = (if 0 \<le> e then m * 10 ^ nat e else m / 10 ^ nat (- e))"

text \<open>An unsigned decimal literal: digits, a fraction, an exponent; at least one digit.\<close>

definition parse_decimal :: "string \<Rightarrow> rat option" where
  "parse_decimal s =
     (let (ip, r1) = (case digitpart s of Some p \<Rightarrow> p | None \<Rightarrow> ([], s));
          (fp, r2) = (case r1 of
                        [] \<Rightarrow> ([], [])
                      | c # cs \<Rightarrow>
                          if c = CHR ''.''
                          then (case digitpart cs of Some p \<Rightarrow> p | None \<Rightarrow> ([], cs))
                          else ([], r1))
      in if ip = [] \<and> fp = [] then None
         else (case parse_exponent r2 of
                 None \<Rightarrow> None
               | Some e \<Rightarrow>
                   Some (scale10 (of_nat (nat_of_digits (ip @ fp))) (e - int (length fp)))))"

text \<open>
  \<open>float(s)\<close> for a string \<open>s\<close>: the text is trimmed, and the float nearest to the
  decimal is returned.
\<close>

definition float_of_string :: "string \<Rightarrow> error + pyfloat" where
  "float_of_string s =
     (let (neg, u) = split_sign (strip_ascii s)
      in if lower u = ''inf'' \<or> lower u = ''infinity'' then Inr (signed_inf (\<not> neg))
         else if lower u = ''nan'' then Inr NaN
         else (case parse_decimal u of
                 None \<Rightarrow> Inl (ValueError ''could not convert string to float'')
               | Some r \<Rightarrow> Inr (to_float (if neg then - r else r))))"

text \<open>\<open>int(s)\<close> for a string \<open>s\<close>\<close>

definition int_of_string :: "string \<Rightarrow> error + int" where
  "int_of_string s =
     (let (neg, u) = split_sign (strip_ascii s)
      in case digitpart u of
           Some (ds, []) \<Rightarrow> Inr (if neg then - int (nat_of_digits ds) else int (nat_of_digits ds))
         | _ \<Rightarrow> Inl (ValueError ''invalid literal for int() with base 10''))"

text \<open>
  \<open>float(v)\<close> and \<open>int(v)\<close> for what \<open>dict.get\<close> returns: \<open>None\<close> is the Python \<open>None\<close>.
  A number of the sheet is an integer or a float; \<open>float\<close> gives the float nearest to it.
\<close>

fun py_float :: "cell option \<Rightarrow> error + pyfloat" where
  "py_float None = Inl TypeError"
| "py_float (Some (Text s)) = float_of_string s"
| "py_float (Some (Number r)) = Inr (to_float r)"
| "py_float (Some Blank) = Inr NaN"

definition truncate :: "rat \<Rightarrow> int" where
  "truncate r = (if 0 \<le> r then \<lfloor>r\<rfloor> else \<lceil>r\<rceil>)"

fun py_int :: "cell option \<Rightarrow> error + int" where
  "py_int None = Inl TypeError"
| "py_int (Some (Text s)) = int_of_string s"
| "py_int (Some (Number r)) = Inr (truncate r)"
| "py_int (Some Blank) = Inl (ValueError ''cannot convert float NaN to integer'')"

text \<open>
  The receiver of a string method (\<open>v.replace(...)\<close>, \<open>v.strip()\<close>): anything but a string
  raises \<open>AttributeError\<close>.
\<close>

fun as_str :: "cell option \<Rightarrow> error + string" where
  "as_str (Some (Text s)) = Inr s"
| "as_str v = Inl AttributeError"


section \<open>The order date\<close>

text \<open>
  \<open>datetime.strptime(s, "%d-%m-%y")\<close> compiles the format to the regular expression
  \<open>(3[0-1]|[1-2]\d|0[1-9]|[1-9]| [1-9])-(1[0-2]|0[1-9]|[1-9])-(\d\d)\<close>, matches it at
  the start of the text and then refuses text that is left over. The alternatives of a
  directive are tried in the order written; each function below lists the ways one
  directive can match, as the token and the text after it.
\<close>

definition nonzero_digit :: "char \<Rightarrow> bool" where
  "nonzero_digit c = (c \<in> set ''123456789'')"

fun day_alts :: "string \<Rightarrow> (string \<times> string) list" where
  "day_alts [] = []"
| "day_alts [c] = (if nonzero_digit c then [([c], [])] else [])"
| "day_alts (c # d # cs) =
     (if c = CHR ''3'' \<and> d \<in> set ''01'' then [([c, d], cs)] else []) @
     (if c \<in> set ''12'' \<and> is_digit d then [([c, d], cs)] else []) @
     (if c = CHR ''0'' \<and> nonzero_digit d then [([c, d], cs)] else []) @
     (if nonzero_digit c then [([c], d # cs)] else []) @
     (if c = CHR '' '' \<and> nonzero_digit d then [([c, d], cs)] else [])"

fun month_alts :: "string \<Rightarrow> (string \<times> string) list" where
  "month_alts [] = []"
| "month_alts [c] = (if nonzero_digit c then [([c], [])] else [])"
| "month_alts (c # d # cs) =
     (if c = CHR ''1'' \<and> d \<in> set ''012'' then [([c, d], cs)] else []) @
     (if c = CHR ''0'' \<and> nonzero_digit d then [([c, d], cs)] else []) @
     (if nonzero_digit c then [([c], d # cs)] else [])"

fun year_alts :: "string \<Rightarrow> (string \<times> string) list" where
  "year_alts (c # d # cs) = (if is_digit c \<and> is_digit d then [([c, d], cs)] else [])"
| "year_alts cs = []"

fun dash :: "string \<Rightarrow> string list" where
  "dash [] = []"
| "dash (c # cs) = (if c = CHR ''-'' then [cs] else [])"

text \<open>All matches of the expression at the start of the text, in the order of the search.\<close>

definition dmy_matches :: "string \<Rightarrow> (string \<times> string \<times> string \<times> string) list" where
  "dmy_matches s =
     concat (map (\<lambda>(d, r1).
       concat (map (\<lambda>r2.
         concat (map (\<lambda>(m, r3).
           concat (map (\<lambda>r4.
             map (\<lambda>(y, r5). (d, m, y, r5)) (year_alts r4))
           (dash r3)))
         (month_alts r2)))
       (dash r1)))
     (day_alts s))"

definition is_leap :: "int \<Rightarrow> bool" where
  "is_leap y = (y mod 4 = 0 \<and> (y mod 100 \<noteq> 0 \<or> y mod 400 = 0))"

definition days_in_month :: "int \<Rightarrow> int \<Rightarrow> int" where
  "days_in_month y m =
     (if m = 2 then (if is_leap y then 29 else 28)
      else if m \<in> {4, 6, 9, 11} then 30 else 31)"

text \<open>Days from 1970-01-01 to a date of the proleptic Gregorian calendar.\<close>

definition days_from_civil :: "int \<Rightarrow> int \<Rightarrow> int \<Rightarrow> int" where
  "days_from_civil y m d =
     (let y' = (if m \<le> 2 then y - 1 else y);
          era = y' div 400;
          yoe = y' - era * 400;
          doy = (153 * (if 2 < m then m - 3 else m + 9) + 2) div 5 + d - 1;
          doe = yoe * 365 + yoe div 4 - yoe div 100 + doy
      in era * 146097 + doe - 719468)"

text \<open>
  \<open>strptime\<close> with the format \<open>%d-%m-%y\<close>: the year, the month and the day. A two-digit
  year up to 68 is in the 2000s, a later one in the 1900s.
\<close>

definition strptime_dmy :: "string \<Rightarrow> error + (int \<times> int \<times> int)" where
  "strptime_dmy s =
     (case dmy_matches s of
        [] \<Rightarrow> Inl (ValueError ''time data does not match format'')
      | (d, m, y, rest) # _ \<Rightarrow>
          if rest \<noteq> [] then Inl (ValueError ''unconverted data remains'')
          else (let yy = int (nat_of_digits y);
                    year = (if yy \<le> 68 then yy + 2000 else yy + 1900);
                    month = int (nat_of_digits m);
                    day = int (nat_of_digits d)
                in if days_in_month year month < day
                   then Inl (ValueError ''day is out of range for month'')
                   else Inr (year, month, day)))"

text \<open>
  \<open>time.mktime\<close> reads the date as local midnight; \<open>tz\<close> gives the offset of the
  host's time zone from UTC at that moment, in seconds.
\<close>

definition mktime :: "(int \<times> int \<times> int \<Rightarrow> int) \<Rightarrow> int \<times> int \<times> int \<Rightarrow> int" where
  "mktime tz ymd = (case ymd of (y, m, d) \<Rightarrow> days_from_civil y m d * 86400 - tz ymd)"


section \<open>The parser's data\<close>

text \<open>The dictionary \<open>_extract_details_from_address\<close> returns.\<close>

record address_details =
  address :: string
  pincode :: "string option"
  state :: "string option"

text \<open>
  A row of the line-item table, keyed by the column labels; and what \<open>extracted_data\<close>
  holds under a key: a cell of the sheet, a normalized address or the line items.
\<close>

type_synonym line_item = "cell \<rightharpoonup> cell"

datatype pyvalue =
    Scalar cell
  | Address address_details
  | LineItems "line_item list"

record client_config =
  base_user_id :: string
  token :: string
  user_name :: string
  sender_email :: string

record parser =
  client_config :: client_config
  extracted_data :: "string \<rightharpoonup> pyvalue"
  sku_map :: "string \<rightharpoonup> pyfloat"
  calculated_total :: pyfloat
  order_details_index :: nat

definition extra_field_to_po_field_mapping :: "string \<rightharpoonup> string" where
  "extra_field_to_po_field_mapping =
     [''PO Number'' \<mapsto> ''po#'', ''PO Expiry'' \<mapsto> ''po_expiry'']"

text \<open>\<open>_convert_to_unix\<close>\<close>

fun value_str :: "pyvalue option \<Rightarrow> error + string" where
  "value_str (Some (Scalar c)) = as_str (Some c)"
| "value_str v = Inl AttributeError"

definition convert_to_unix ::
  "(int \<times> int \<times> int \<Rightarrow> int) \<Rightarrow> pyvalue option \<Rightarrow> error + int" where
  "convert_to_unix tz date_str =
     bind (value_str date_str) (\<lambda>s.
     bind (strptime_dmy (strip s)) (\<lambda>ymd.
     Inr (mktime tz ymd)))"


section \<open>Order assembly\<close>

record product =
  name :: "cell option"
  ean :: string
  price_brutto :: pyfloat
  tax_rate :: pyfloat
  quantity :: int

text \<open>
  The dictionary \<open>_create_order_json\<close> returns. A key of \<open>custom_extra_fields\<close> is an
  extra-field identifier or the Python \<open>None\<close>; so is a value of it.
\<close>

record order_json =
  order_status_id :: int
  custom_source_id :: string
  date_add :: int
  currency :: string
  payment_method_cod :: string
  paid :: string
  email :: string
  phone :: string
  delivery_fullname :: string
  delivery_company :: string
  delivery_address :: string
  delivery_state :: "string option"
  delivery_postcode :: "string option"
  delivery_country_code :: string
  delivery_point_id :: string
  delivery_point_name :: "pyvalue option"
  delivery_point_address :: string
  delivery_point_postcode :: "string option"
  invoice_nip :: "pyvalue option"
  invoice_company :: string
  invoice_address :: string
  invoice_state :: "string option"
  invoice_postcode :: "string option"
  invoice_country_code :: string
  products :: "product list"
  custom_extra_fields :: "int option \<rightharpoonup> pyvalue option"

text \<open>\<open>item.get(key, default)\<close> with a string default\<close>

definition get_default :: "line_item \<Rightarrow> string \<Rightarrow> string \<Rightarrow> cell option" where
  "get_default item key dflt =
     (case item (Text key) of None \<Rightarrow> Some (Text dflt) | Some v \<Rightarrow> Some v)"

text \<open>
  The sum of the three rates of a line item, each read with the percent sign removed
  and taken as \<open>"0"\<close> when the column is missing.
\<close>

fun tax_sum :: "line_item \<Rightarrow> pyfloat \<Rightarrow> string list \<Rightarrow> error + pyfloat" where
  "tax_sum item acc [] = Inr acc"
| "tax_sum item acc (rate # rates) =
     bind (as_str (get_default item rate ''0'')) (\<lambda>s.
     bind (float_of_string (str_replace ''%'' [] s)) (\<lambda>f.
     tax_sum item (fadd acc f) rates))"

text \<open>The product dictionary built from one line item, its entries in the order written.\<close>

definition make_product :: "line_item \<Rightarrow> error + product" where
  "make_product item =
     bind (as_str (item (Text ''FSN/ISBN13''))) (\<lambda>e.
     bind (as_str (get_default item ''Total Amount'' ''0'')) (\<lambda>ta.
     bind (float_of_string (str_replace '','' [] ta)) (\<lambda>amount.
     bind (py_float (item (Text ''Quantity''))) (\<lambda>q.
     bind (fdiv amount q) (\<lambda>unit.
     bind (tax_sum item (Fin 0) [''SGST/UTGST Rate'', ''CGST Rate'', ''IGST Rate'']) (\<lambda>t.
     bind (py_int (item (Text ''Quantity''))) (\<lambda>n.
     Inr \<lparr>name = item (Text ''Title''),
          ean = str_replace '' '' [] e,
          price_brutto = round2 unit,
          tax_rate = t,
          quantity = n\<rparr>)))))))"

text \<open>
  One turn of the loop over the line items: the products, the custom extra fields, the
  running total and the price map, before and after.
\<close>

type_synonym assembly =
  "product list \<times> (int option \<rightharpoonup> pyvalue option) \<times> pyfloat \<times> (string \<rightharpoonup> pyfloat)"

definition add_product ::
  "int option \<Rightarrow> string \<Rightarrow> assembly \<Rightarrow> line_item \<Rightarrow> error + assembly" where
  "add_product sender_key sender acc item =
     (case acc of (ps, extras, running, skus) \<Rightarrow>
        bind (make_product item) (\<lambda>p.
        bind (py_float (item (Text ''Quantity''))) (\<lambda>q.
        Inr (ps @ [p],
             extras(sender_key \<mapsto> Some (Scalar (Text sender))),
             fadd running (round2 (fmul (price_brutto p) q)),
             skus(ean p \<mapsto> price_brutto p)))))"

fun add_products ::
  "int option \<Rightarrow> string \<Rightarrow> assembly \<Rightarrow> line_item list \<Rightarrow> error + assembly" where
  "add_products sender_key sender acc [] = Inr acc"
| "add_products sender_key sender acc (item # items) =
     bind (add_product sender_key sender acc item) (\<lambda>acc'.
     add_products sender_key sender acc' items)"

text \<open>
  The custom extra fields the order starts with: one entry per resolved extra field, in
  the order of the mapping, a later entry replacing an earlier one with the same
  identifier.
\<close>

definition initial_extra_fields ::
  "(string \<rightharpoonup> pyvalue) \<Rightarrow> (string \<times> int) list \<Rightarrow> (int option \<rightharpoonup> pyvalue option)" where
  "initial_extra_fields data extra_field_mapping =
     foldl (\<lambda>m (key, v).
              m(Some v \<mapsto> (case extra_field_to_po_field_mapping key of
                               None \<Rightarrow> None
                             | Some field \<Rightarrow> data field)))
           Map.empty extra_field_mapping"

fun get_address :: "pyvalue option \<Rightarrow> error + address_details" where
  "get_address (Some (Address a)) = Inr a"
| "get_address v = Inl AttributeError"

fun get_line_items :: "pyvalue option \<Rightarrow> error + line_item list" where
  "get_line_items (Some (LineItems items)) = Inr items"
| "get_line_items v = Inl TypeError"

text \<open>The grand total: the total amount of the last line item.\<close>

definition grand_total_of :: "line_item list \<Rightarrow> error + pyfloat" where
  "grand_total_of items =
     (if items = [] then Inl IndexError
      else bind (as_str (last items (Text ''Total Amount''))) (\<lambda>s.
           float_of_string (str_replace '' '' [] (str_replace ''INR'' [] s))))"

definition mismatch :: error where
  "mismatch = ValueError ''Calculated total price and PDF total price do not match''"

text \<open>
  \<open>_create_order_json\<close>: the order and the parser with its running total and price map
  updated, or the exception raised.
\<close>

definition create_order_json ::
  "(int \<times> int \<times> int \<Rightarrow> int) \<Rightarrow> parser \<Rightarrow> int \<Rightarrow> string \<Rightarrow> (string \<times> int) list
     \<Rightarrow> error + (order_json \<times> parser)" where
  "create_order_json tz self status_id source_id extra_field_mapping =
     (let data = extracted_data self in
      bind (convert_to_unix tz (data ''order_date'')) (\<lambda>date.
      bind (get_address (data ''shipped_to_address'')) (\<lambda>shipped.
      bind (get_address (data ''supplier_address'')) (\<lambda>supplier.
      bind (get_address (data ''billed_to_address'')) (\<lambda>billed.
      bind (get_line_items (data ''Line_Items'')) (\<lambda>items.
      bind (add_products (map_of extra_field_mapping ''Sender Mail'')
              (sender_email (client_config self))
              ([], initial_extra_fields data extra_field_mapping, Fin 0, sku_map self)
              (butlast items)) (\<lambda>(ps, extras, running, skus).
      bind (grand_total_of items) (\<lambda>grand_total.
      if fgt (fabs (fsub running grand_total)) 5 then Inl mismatch
      else Inr
        (\<lparr>order_status_id = status_id,
          custom_source_id = source_id,
          date_add = date,
          currency = ''INR'',
          payment_method_cod = ''1'',
          paid = ''0'',
          email = [],
          phone = [],
          delivery_fullname = [],
          delivery_company = [],
          delivery_address = address shipped,
          delivery_state = state shipped,
          delivery_postcode = pincode shipped,
          delivery_country_code = ''IN'',
          delivery_point_id = [],
          delivery_point_name = data ''supplier_name'',
          delivery_point_address = address supplier,
          delivery_point_postcode = pincode supplier,
          invoice_nip = data ''billed_by_gstin'',
          invoice_company = [],
          invoice_address = address billed,
          invoice_state = state billed,
          invoice_postcode = pincode billed,
          invoice_country_code = ''IN'',
          products = ps,
          custom_extra_fields = extras\<rparr>,
         self\<lparr>calculated_total := running, sku_map := skus\<rparr>)))))))))"





section \<open>The document scan\<close>

text \<open>
  \<open>normalize_field_name\<close>: trimmed and lower-cased, each run of white space made one
  underscore, runs of underscores made one, underscores at the ends removed.
\<close>

function squeeze :: "(char \<Rightarrow> bool) \<Rightarrow> char \<Rightarrow> string \<Rightarrow> string" where
  "squeeze P r [] = []"
| "squeeze P r (c # cs) =
     (if P c then r # squeeze P r (dropWhile P cs) else c # squeeze P r cs)"
  by pat_completeness auto
termination
  by (relation "measure (\<lambda>(P, r, s). length s)") (auto simp: less_Suc_eq_le length_dropWhile_le)

definition strip_char :: "char \<Rightarrow> string \<Rightarrow> string" where
  "strip_char x s = rev (dropWhile (\<lambda>c. c = x) (rev (dropWhile (\<lambda>c. c = x) s)))"

definition normalize_field_name :: "string \<Rightarrow> string" where
  "normalize_field_name field_name =
     (if field_name = [] then []
      else strip_char CHR ''_''
             (squeeze (\<lambda>c. c = CHR ''_'') CHR ''_''
               (str_replace '' '' ''_''
                 (squeeze is_space CHR '' '' (lower (strip field_name))))))"

definition fields_to_extract :: "string list" where
  "fields_to_extract =
     [''PO#'', ''Nature Of Supply'', ''Nature of Transaction'', ''PO Expiry'',
      ''CATEGORY'', ''ORDER DATE'', ''SUPPLIER NAME'', ''CATEGORY'',
      ''SUPPLIER ADDRESS'', ''SUPPLIER CONTACT'', ''Billed by'', ''Shipped From'',
      ''BILLED TO ADDRESS'', ''SHIPPED TO ADDRESS'', ''MODE OF PAYMENT'',
      ''CONTRACT REF ID'', ''CONTRACT VERSION'', ''CREDIT TERM'']"

text \<open>\<open>_get_next_non_empty_value\<close>: the first cell that is not blank, right of the column.\<close>

definition get_next_non_empty_value :: "cell list \<Rightarrow> nat \<Rightarrow> cell option" where
  "get_next_non_empty_value row start_col_index =
     find (\<lambda>c. c \<noteq> Blank) (drop (start_col_index + 1) row)"

text \<open>
  \<open>extracted_data[key] = value\<close> for a value read from the sheet. The parser reads
  \<open>extracted_data\<close> with \<open>get\<close> only, so a key bound to \<open>None\<close> reads as a key that is
  not there, and is modelled so.
\<close>

definition store :: "(string \<rightharpoonup> pyvalue) \<Rightarrow> string \<Rightarrow> cell option \<Rightarrow> (string \<rightharpoonup> pyvalue)" where
  "store data key v = data(key := map_option Scalar v)"

text \<open>\<open>_process_cell\<close>, for a cell that holds text\<close>

definition process_cell ::
  "string \<Rightarrow> cell list \<Rightarrow> nat \<Rightarrow> (string \<rightharpoonup> pyvalue) \<Rightarrow> (string \<rightharpoonup> pyvalue)" where
  "process_cell cell row col_index data =
     (let v = get_next_non_empty_value row col_index;
          d1 = (if cell \<in> set fields_to_extract
                then store data (normalize_field_name cell) v else data);
          d2 = (if contains ''EMAIL'' cell
                then store d1 (normalize_field_name ''Supplier EMAIL'') v else d1);
          d3 = (if contains ''GSTIN'' cell
                then store d2 (normalize_field_name ''Billed By GSTIN'') v else d2)
      in if contains ''State Code'' cell
         then store d3 (normalize_field_name ''Billed By State Code'') v else d3)"

text \<open>
  \<open>"ORDER DETAILS" in str(cell)\<close>: the text of a number or of the blank has no capital
  letter, so only a cell of text can hold the marker.
\<close>

fun has_marker :: "string \<Rightarrow> cell \<Rightarrow> bool" where
  "has_marker marker (Text s) = contains marker s"
| "has_marker marker c = False"

fun is_text :: "cell \<Rightarrow> bool" where
  "is_text (Text s) = True"
| "is_text c = False"

text \<open>
  The loop over the cells of one row, from column \<open>col_index\<close> on: the data collected and
  whether the marker was met, at which the loop is left.
\<close>

fun scan_cells ::
  "cell list \<Rightarrow> nat \<Rightarrow> cell list \<Rightarrow> (string \<rightharpoonup> pyvalue) \<Rightarrow> (string \<rightharpoonup> pyvalue) \<times> bool" where
  "scan_cells row col_index [] data = (data, False)"
| "scan_cells row col_index (cell # cells) data =
     (let data' = (case cell of Text s \<Rightarrow> process_cell s row col_index data | _ \<Rightarrow> data)
      in if has_marker ''ORDER DETAILS'' cell then (data', True)
         else scan_cells row (col_index + 1) cells data')"

definition missing_section :: error where
  "missing_section = ValueError ''Could not find ORDER DETAILS section in the file''"

text \<open>
  The loop over the rows, from row \<open>index\<close> on. A row is scanned only when its first cell
  holds text; reading the first cell of a row without cells raises \<open>IndexError\<close>.
\<close>

fun scan_rows ::
  "cell list list \<Rightarrow> nat \<Rightarrow> (string \<rightharpoonup> pyvalue) \<Rightarrow> error + ((string \<rightharpoonup> pyvalue) \<times> nat)" where
  "scan_rows [] index data = Inl missing_section"
| "scan_rows (row # rows) index data =
     (case row of
        [] \<Rightarrow> Inl IndexError
      | first # _ \<Rightarrow>
          if is_text first
          then (case scan_cells row 0 row data of
                  (data', found) \<Rightarrow>
                    if found then Inr (data', index) else scan_rows rows (index + 1) data')
          else scan_rows rows (index + 1) data)"

text \<open>\<open>_extract_order_details\<close>\<close>

definition extract_order_details :: "parser \<Rightarrow> cell list list \<Rightarrow> error + parser" where
  "extract_order_details self df =
     bind (scan_rows df 0 (extracted_data self)) (\<lambda>(data, index).
     Inr (self\<lparr>extracted_data := data, order_details_index := index\<rparr>))"

text \<open>A row at which the scan stops: its first cell holds text and a cell holds the marker.\<close>

definition boundary_row :: "cell list \<Rightarrow> bool" where
  "boundary_row row = (row \<noteq> [] \<and> is_text (hd row) \<and> list_ex (has_marker ''ORDER DETAILS'') row)"


section \<open>The line-item table\<close>

text \<open>
  \<open>to_dict(orient="records")\<close> for one row under the column labels; of two columns with one
  label the later one is kept.
\<close>

definition record_of :: "cell list \<Rightarrow> cell list \<Rightarrow> line_item" where
  "record_of labels row = map_of (rev (zip labels row))"

text \<open>The totals read from the row of the notification marker.\<close>

fun scan_totals ::
  "cell list \<Rightarrow> nat \<Rightarrow> cell list \<Rightarrow> (string \<rightharpoonup> pyvalue) \<Rightarrow> (string \<rightharpoonup> pyvalue)" where
  "scan_totals row col_index [] data = data"
| "scan_totals row col_index (cell # cells) data =
     scan_totals row (col_index + 1) cells
       (case cell of
          Text s \<Rightarrow>
            (let d1 = (if contains ''Total Quantity='' s
                       then store data (normalize_field_name ''Total Quantity='')
                              (get_next_non_empty_value row col_index)
                       else data)
             in if contains ''Total='' s
                then store d1 (normalize_field_name ''Total='')
                       (get_next_non_empty_value row col_index)
                else d1)
        | _ \<Rightarrow> data)"

text \<open>
  The index of the first row whose rendering holds the notification marker, if any.
  \<open>to_string\<close> is the rendering of a row by pandas.
\<close>

fun find_notification :: "(cell list \<Rightarrow> string) \<Rightarrow> cell list list \<Rightarrow> nat \<Rightarrow> nat option" where
  "find_notification to_string [] index = None"
| "find_notification to_string (row # rows) index =
     (if contains ''Important Notification'' (to_string row) then Some index
      else find_notification to_string rows (index + 1))"

text \<open>
  \<open>_process_line_items\<close>. The first row of the table gives the column labels, and reading
  it from a table without rows raises \<open>IndexError\<close>. The line items are stored before the
  totals are read. The row of the totals is \<open>df.iloc[start_row + index]\<close>, where the index
  is \<open>None\<close> when no row holds the marker: the sum then raises \<open>TypeError\<close>.
\<close>

definition process_line_items ::
  "(cell list \<Rightarrow> string) \<Rightarrow> parser \<Rightarrow> cell list list \<Rightarrow> error + parser" where
  "process_line_items to_string self df =
     (let start_row = order_details_index self + 1;
          table_df = drop start_row df;
          important_notification_row_index = find_notification to_string table_df 0;
          table_df' = (case important_notification_row_index of
                         None \<Rightarrow> table_df
                       | Some i \<Rightarrow> take i table_df)
      in case table_df' of
           [] \<Rightarrow> Inl IndexError
         | labels # rows \<Rightarrow>
             (let data = (extracted_data self)
                           (''Line_Items'' \<mapsto> LineItems (map (record_of labels) rows))
              in case important_notification_row_index of
                   None \<Rightarrow> Inl TypeError
                 | Some i \<Rightarrow>
                     (let row = df ! (start_row + i)
                      in Inr (self\<lparr>extracted_data := scan_totals row 0 row data\<rparr>))))"



section \<open>Extra fields and the error notification\<close>

text \<open>
  The notification path: the error mail to the sender and the mail to the support team.
  Delivery is outside the program; \<open>deliver\<close> tells whether the transport accepts a mail
  (it raises otherwise), and the mails accepted so far are kept in a list.
\<close>

datatype notification = ErrorMail string | SupportMail string

text \<open>
  \<open>send_error_email\<close>: after the two mails are sent the function raises \<open>ValueError\<close> with
  the message; a failure of the transport is raised again by the handler. The function
  has no \<open>return\<close>.
\<close>

definition send_error_email ::
  "(notification \<Rightarrow> bool) \<Rightarrow> string \<Rightarrow> notification list \<Rightarrow> (error + unit) \<times> notification list" where
  "send_error_email deliver error_message sent =
     (if \<not> deliver (ErrorMail error_message) then (Inl DeliveryError, sent)
      else if \<not> deliver (SupportMail error_message)
           then (Inl DeliveryError, sent @ [ErrorMail error_message])
           else (Inl (ValueError error_message),
                 sent @ [ErrorMail error_message, SupportMail error_message]))"

text \<open>
  An entry of the extra-field list of the API: its name and its identifier, each \<open>None\<close>
  when the entry has no such key.
\<close>

record api_field =
  field_name :: "string option"
  extra_field_id :: "int option"

text \<open>
  \<open>next((item for item in response if item["name"] == field), None)\<close>: an entry without a
  name met before a match raises \<open>KeyError\<close>.
\<close>

fun find_field :: "api_field list \<Rightarrow> string \<Rightarrow> error + api_field option" where
  "find_field [] field = Inr None"
| "find_field (item # items) field =
     (case field_name item of
        None \<Rightarrow> Inl KeyError
      | Some n \<Rightarrow> if n = field then Inr (Some item) else find_field items field)"

text \<open>\<open>d[key] = value\<close> on a dictionary kept in the order of insertion\<close>

fun dict_set :: "('k \<times> 'v) list \<Rightarrow> 'k \<Rightarrow> 'v \<Rightarrow> ('k \<times> 'v) list" where
  "dict_set [] key v = [(key, v)]"
| "dict_set ((k, w) # d) key v = (if k = key then (k, v) # d else (k, w) # dict_set d key v)"

text \<open>The loop of \<open>_process_extra_fields\<close>: the mapping and the missing names.\<close>

fun resolve_fields ::
  "api_field list \<Rightarrow> string list \<Rightarrow> (string \<times> int) list \<times> string list
     \<Rightarrow> error + ((string \<times> int) list \<times> string list)" where
  "resolve_fields response [] acc = Inr acc"
| "resolve_fields response (field # rest) acc =
     (case acc of (field_mapping, missing_fields) \<Rightarrow>
        bind (find_field response field) (\<lambda>field_entry.
        case field_entry of
          None \<Rightarrow> resolve_fields response rest (field_mapping, missing_fields @ [field])
        | Some item \<Rightarrow>
            (case extra_field_id item of
               None \<Rightarrow> Inl KeyError
             | Some i \<Rightarrow> resolve_fields response rest (dict_set field_mapping field i, missing_fields))))"

definition missing_message :: "string list \<Rightarrow> string" where
  "missing_message missing_fields = ''Missing fields in response: '' @ join '', '' missing_fields"

text \<open>\<open>_process_extra_fields\<close>\<close>

definition process_extra_fields ::
  "(notification \<Rightarrow> bool) \<Rightarrow> (string \<rightharpoonup> api_field list) \<Rightarrow> string list \<Rightarrow> notification list
     \<Rightarrow> (error + (string \<times> int) list) \<times> notification list" where
  "process_extra_fields deliver data extra_fields sent =
     (let extra_fields_response = (case data ''extra_fields'' of None \<Rightarrow> [] | Some l \<Rightarrow> l)
      in case resolve_fields extra_fields_response extra_fields ([], []) of
           Inl e \<Rightarrow> (Inl e, sent)
         | Inr (field_mapping, missing_fields) \<Rightarrow>
             if missing_fields \<noteq> []
             then (case send_error_email deliver (missing_message missing_fields) sent of
                     (Inl e, sent') \<Rightarrow> (Inl e, sent')
                   | (Inr u, sent') \<Rightarrow> (Inr field_mapping, sent'))
             else (Inr field_mapping, sent))"



section \<open>Address normalization\<close>

text \<open>
  The regular expressions of \<open>_extract_details_from_address\<close>, each as the function it
  computes. A search goes through the text from the left and carries whether the
  character before the position is a word character; before the first position it is
  not. \<open>\b\<close> holds where exactly one of the two neighbours is a word character.
\<close>

definition boundary :: "bool \<Rightarrow> string \<Rightarrow> bool" where
  "boundary prev_word rest = (prev_word \<noteq> (rest \<noteq> [] \<and> is_word (hd rest)))"

text \<open>\<open>\b\d{6}\b\<close> at the start of the rest\<close>

definition pincode_at :: "bool \<Rightarrow> string \<Rightarrow> bool" where
  "pincode_at prev_word s =
     (boundary prev_word s \<and> 6 \<le> length s \<and> list_all is_digit (take 6 s) \<and>
      boundary True (drop 6 s))"

text \<open>\<open>re.findall(r"\b\d{6}\b", address)[0]\<close>, or \<open>None\<close> when nothing matches\<close>

fun find_pincode :: "bool \<Rightarrow> string \<Rightarrow> string option" where
  "find_pincode prev_word [] = None"
| "find_pincode prev_word (c # cs) =
     (if pincode_at prev_word (c # cs) then Some (take 6 (c # cs))
      else find_pincode (is_word c) cs)"

text \<open>
  \<open>\b\<close>, a literal and \<open>\b\<close> at the start of the rest; the letters compared without
  case when \<open>ci\<close> is set.
\<close>

definition word_at :: "bool \<Rightarrow> string \<Rightarrow> bool \<Rightarrow> string \<Rightarrow> bool" where
  "word_at ci lit prev_word s =
     (let m = take (length lit) s
      in lit \<noteq> [] \<and> boundary prev_word s \<and>
         (if ci then lower m = lower lit else m = lit) \<and>
         boundary (is_word (last m)) (drop (length lit) s))"

text \<open>The first match of the word: the text before it, the match and the text after it.\<close>

fun split_at_word ::
  "bool \<Rightarrow> string \<Rightarrow> bool \<Rightarrow> string \<Rightarrow> (string \<times> string \<times> string) option" where
  "split_at_word ci lit prev_word [] = None"
| "split_at_word ci lit prev_word (c # cs) =
     (if word_at ci lit prev_word (c # cs)
      then Some ([], take (length lit) (c # cs), drop (length lit) (c # cs))
      else map_option (\<lambda>(before, m, after). (c # before, m, after))
             (split_at_word ci lit (is_word c) cs))"

definition indian_states :: "string list" where
  "indian_states =
     [''Andhra Pradesh'', ''Arunachal Pradesh'', ''Assam'', ''Bihar'', ''Chhattisgarh'', ''Goa'',
      ''Gujarat'', ''Haryana'', ''Himachal Pradesh'', ''Jharkhand'', ''Karnataka'', ''Kerala'',
      ''Madhya Pradesh'', ''Maharashtra'', ''Manipur'', ''Meghalaya'', ''Mizoram'', ''Nagaland'',
      ''Odisha'', ''Punjab'', ''Rajasthan'', ''Sikkim'', ''Tamil Nadu'', ''Telangana'',
      ''Tripura'', ''Uttar Pradesh'', ''Uttarakhand'', ''West Bengal'', ''Delhi'', ''Puducherry'',
      ''Jammu and Kashmir'', ''Ladakh'', ''Andaman and Nicobar Islands'', ''Chandigarh'',
      ''Dadra and Nagar Haveli and Daman and Diu'', ''Lakshadweep'']"

text \<open>The first state of the list that occurs in the address as a word, without case.\<close>

definition find_state :: "string \<Rightarrow> string option" where
  "find_state s = find (\<lambda>st. split_at_word True st False s \<noteq> None) indian_states"

text \<open>
  \<open>re.sub(r'(\bW\b)(.*)', lambda m: m.group(1) + m.group(2).replace(W, ''), text, count=1)\<close>:
  the first match of the word is kept, and the other occurrences of \<open>W\<close> are removed from
  the rest of its line (\<open>.\<close> does not match a line feed).
\<close>

definition remove_repeats :: "bool \<Rightarrow> string \<Rightarrow> string \<Rightarrow> string" where
  "remove_repeats ci w s =
     (case split_at_word ci w False s of
        None \<Rightarrow> s
      | Some (before, m, after) \<Rightarrow>
          before @ m @ str_replace w [] (takeWhile (\<lambda>c. c \<noteq> CHR 0x0A) after)
                     @ dropWhile (\<lambda>c. c \<noteq> CHR 0x0A) after)"

text \<open>\<open>re.sub(r'\s{2,}', ' ', s)\<close>\<close>

function collapse_ws :: "string \<Rightarrow> string" where
  "collapse_ws [] = []"
| "collapse_ws (c # cs) =
     (if is_space c \<and> cs \<noteq> [] \<and> is_space (hd cs)
      then CHR '' '' # collapse_ws (dropWhile is_space cs)
      else c # collapse_ws cs)"
  by pat_completeness auto
termination
  by (relation "measure length") (auto simp: less_Suc_eq_le length_dropWhile_le)

text \<open>\<open>re.sub(r',\s*,', ',', s)\<close>\<close>

function sub_commas :: "string \<Rightarrow> string" where
  "sub_commas [] = []"
| "sub_commas (c # cs) =
     (if c = CHR '','' \<and> dropWhile is_space cs \<noteq> [] \<and> hd (dropWhile is_space cs) = CHR '',''
      then CHR '','' # sub_commas (tl (dropWhile is_space cs))
      else c # sub_commas cs)"
  by pat_completeness auto
termination
proof (relation "measure length")
  fix c :: char and cs :: string
  assume "c = CHR '','' \<and> dropWhile is_space cs \<noteq> [] \<and> hd (dropWhile is_space cs) = CHR '',''"
  then have "length (tl (dropWhile is_space cs)) < length (dropWhile is_space cs)"
    by simp
  also have "\<dots> \<le> length cs" by (rule length_dropWhile_le)
  finally show "(tl (dropWhile is_space cs), c # cs) \<in> measure length" by simp
qed simp_all

text \<open>\<open>re.sub(r',\s*$', '', s)\<close>\<close>

fun strip_trailing_comma :: "string \<Rightarrow> string" where
  "strip_trailing_comma [] = []"
| "strip_trailing_comma (c # cs) =
     (if c = CHR '','' \<and> list_all is_space cs then [] else c # strip_trailing_comma cs)"

text \<open>\<open>re.sub(r'(?i)\bGSTIN NO:\s*', '', s)\<close>\<close>

definition gstin_at :: "bool \<Rightarrow> string \<Rightarrow> bool" where
  "gstin_at prev_word s = (boundary prev_word s \<and> lower (take 9 s) = ''gstin no:'')"

function strip_gstin :: "bool \<Rightarrow> string \<Rightarrow> string" where
  "strip_gstin prev_word [] = []"
| "strip_gstin prev_word (c # cs) =
     (if gstin_at prev_word (c # cs)
      then strip_gstin False (dropWhile is_space (drop 9 (c # cs)))
      else c # strip_gstin (is_word c) cs)"
  by pat_completeness auto
termination
proof (relation "measure (\<lambda>(p, s). length s)")
  fix prev_word :: bool and c :: char and cs :: string
  have "length (dropWhile is_space (drop 9 (c # cs))) \<le> length (drop 9 (c # cs))"
    by (rule length_dropWhile_le)
  also have "\<dots> < length (c # cs)" by simp
  finally show "((False, dropWhile is_space (drop 9 (c # cs))), prev_word, c # cs)
      \<in> measure (\<lambda>(p, s). length s)" by simp
qed simp_all

text \<open>The last four substitutions, each followed by \<open>strip\<close>.\<close>

definition clean_up :: "string \<Rightarrow> string" where
  "clean_up s =
     strip (strip_gstin False
       (strip (strip_trailing_comma
         (strip (sub_commas
           (strip (collapse_ws s)))))))"

text \<open>
  \<open>_extract_details_from_address\<close>. A value that is not a string and not false raises
  \<open>TypeError\<close> in \<open>re.findall\<close>.
\<close>

fun truthy :: "pyvalue option \<Rightarrow> bool" where
  "truthy None = False"
| "truthy (Some (Scalar (Text s))) = (s \<noteq> [])"
| "truthy (Some (Scalar (Number r))) = (r \<noteq> 0)"
| "truthy (Some (Scalar Blank)) = True"
| "truthy (Some (Address a)) = True"
| "truthy (Some (LineItems items)) = (items \<noteq> [])"

definition normalize_text :: "string \<Rightarrow> address_details" where
  "normalize_text s =
     (let pincode_found = find_pincode False s;
          state_found = find_state s;
          c1 = (case pincode_found of None \<Rightarrow> s | Some p \<Rightarrow> remove_repeats False p s);
          c2 = (case state_found of None \<Rightarrow> c1 | Some st \<Rightarrow> remove_repeats True st c1)
      in \<lparr>address = clean_up c2, pincode = pincode_found, state = state_found\<rparr>)"

definition extract_details_from_address :: "pyvalue option \<Rightarrow> error + address_details" where
  "extract_details_from_address v =
     (if \<not> truthy v then Inr \<lparr>address = [], pincode = None, state = None\<rparr>
      else case v of
             Some (Scalar (Text s)) \<Rightarrow> Inr (normalize_text s)
           | _ \<Rightarrow> Inl TypeError)"

text \<open>\<open>_process_addresses\<close>\<close>

definition process_addresses :: "parser \<Rightarrow> error + parser" where
  "process_addresses self =
     bind (extract_details_from_address (extracted_data self ''billed_to_address'')) (\<lambda>billed.
     bind (extract_details_from_address (extracted_data self ''shipped_to_address'')) (\<lambda>shipped.
     bind (extract_details_from_address (extracted_data self ''supplier_address'')) (\<lambda>supplier.
     Inr (self\<lparr>extracted_data := (extracted_data self)
            (''billed_to_address'' \<mapsto> Address billed,
             ''shipped_to_address'' \<mapsto> Address shipped,
             ''supplier_address'' \<mapsto> Address supplier)\<rparr>))))"


section \<open>Date patterns\<close>




section \<open>Example data\<close>

definition example_item :: line_item where
  "example_item = [Text ''Title'' \<mapsto> Text ''Rice'', Text ''FSN/ISBN13'' \<mapsto> Text ''89 01'',
     Text ''Total Amount'' \<mapsto> Text ''1,000.00'', Text ''Quantity'' \<mapsto> Text ''4'',
     Text ''CGST Rate'' \<mapsto> Text ''2.5%'']"



definition example_total :: "string \<Rightarrow> line_item" where
  "example_total amount = [Text ''Total Amount'' \<mapsto> Text amount]"

definition example_address :: address_details where
  "example_address = \<lparr>address = ''12 Main Road'', pincode = Some ''560001'', state = Some ''Karnataka''\<rparr>"

definition example_parser :: "line_item list \<Rightarrow> parser" where
  "example_parser items =
     \<lparr>client_config = \<lparr>base_user_id = ''u'', token = ''t'', user_name = ''n'',
                        sender_email = ''po@example.com''\<rparr>,
      extracted_data = [''order_date'' \<mapsto> Scalar (Text ''05-01-24''),
                        ''po#'' \<mapsto> Scalar (Text ''PO1''),
                        ''shipped_to_address'' \<mapsto> Address example_address,
                        ''supplier_address'' \<mapsto> Address example_address,
                        ''billed_to_address'' \<mapsto> Address example_address,
                        ''Line_Items'' \<mapsto> LineItems items],
      sku_map = Map.empty, calculated_total = Fin 0, order_details_index = 0\<rparr>"

definition example_mapping :: "(string \<times> int) list" where
  "example_mapping = [(''PO Number'', 1), (''PO Expiry'', 2), (''Sender Mail'', 3)]"

definition utc :: "int \<times> int \<times> int \<Rightarrow> int" where
  "utc ymd = 0"

definition example_grid :: "cell list list" where
  "example_grid =
     [[Text ''PO#'', Blank, Text ''PO1''],
      [Blank, Text ''ORDER DETAILS'', Blank],
      [Text ''ORDER DETAILS'', Blank, Blank],
      [Text ''Title'', Text ''Total Amount'', Text ''Quantity''],
      [Text ''Rice'', Text ''1,000.00'', Text ''4''],
      [Text ''Total'', Text ''1003 INR'', Blank],
      [Text ''Important Notification'', Text ''Total='', Text ''1003 INR'']]"

text \<open>A rendering of a row for the examples: the cells, each on a line of its own.\<close>

definition plain_to_string :: "cell list \<Rightarrow> string" where
  "plain_to_string row =
     concat (map (\<lambda>c. (case c of Text s \<Rightarrow> s | Number r \<Rightarrow> ''0.0'' | Blank \<Rightarrow> ''NaN'') @ [CHR 0x0A]) row)"

definition example_response :: "string \<rightharpoonup> api_field list" where
  "example_response =
     [''extra_fields'' \<mapsto>
        [\<lparr>field_name = Some ''PO Number'', extra_field_id = Some 1\<rparr>,
         \<lparr>field_name = Some ''PO Expiry'', extra_field_id = Some 2\<rparr>]]"


section \<open>Properties of the order assembly\<close>

lemma bind_Inl [simp]: "bind (Inl e) f = Inl e"
  by (simp add: bind_def)

lemma bind_Inr [simp]: "bind (Inr x) f = f x"
  by (simp add: bind_def)

lemma bind_eq_Inr: "bind m f = Inr y \<longleftrightarrow> (\<exists>x. m = Inr x \<and> f x = Inr y)"
  by (cases m) simp_all

lemma bind_eq_Inl: "bind m f = Inl e \<longleftrightarrow> m = Inl e \<or> (\<exists>x. m = Inr x \<and> f x = Inl e)"
  by (cases m) simp_all

lemma add_product_Inr:
  "add_product k s (ps, ex, r, sk) item = Inr acc' \<longleftrightarrow>
     (\<exists>p q. make_product item = Inr p \<and> py_float (item (Text ''Quantity'')) = Inr q \<and>
        acc' = (ps @ [p], ex(k \<mapsto> Some (Scalar (Text s))),
                fadd r (round2 (fmul (price_brutto p) q)), sk(ean p \<mapsto> price_brutto p)))"
  by (auto simp: add_product_def bind_eq_Inr)

lemma add_products_products:
  "add_products k s (ps, ex, r, sk) items = Inr (ps', ex', r', sk') \<Longrightarrow>
     \<exists>qs. ps' = ps @ qs \<and> map make_product items = map Inr qs"
proof (induction items arbitrary: ps ex r sk)
  case Nil
  then show ?case by simp
next
  case (Cons item items)
  from Cons.prems obtain acc1 where
    a: "add_product k s (ps, ex, r, sk) item = Inr acc1" and
    b: "add_products k s acc1 items = Inr (ps', ex', r', sk')"
    by (auto simp: bind_eq_Inr)
  from a obtain p q where p: "make_product item = Inr p"
    and acc1: "acc1 = (ps @ [p], ex(k \<mapsto> Some (Scalar (Text s))),
                fadd r (round2 (fmul (price_brutto p) q)), sk(ean p \<mapsto> price_brutto p))"
    by (auto simp: add_product_Inr)
  from Cons.IH [OF b [unfolded acc1]] obtain qs where
    "ps' = (ps @ [p]) @ qs" "map make_product items = map Inr qs" by blast
  then have "ps' = ps @ (p # qs) \<and> map make_product (item # items) = map Inr (p # qs)"
    using p by simp
  then show ?case by blast
qed

lemma add_products_extras:
  "add_products k s (ps, ex, r, sk) items = Inr (ps', ex', r', sk') \<Longrightarrow>
     ex' = (if items = [] then ex else ex(k \<mapsto> Some (Scalar (Text s))))"
proof (induction items arbitrary: ps ex r sk)
  case Nil
  then show ?case by simp
next
  case (Cons item items)
  from Cons.prems obtain acc1 where
    a: "add_product k s (ps, ex, r, sk) item = Inr acc1" and
    b: "add_products k s acc1 items = Inr (ps', ex', r', sk')"
    by (auto simp: bind_eq_Inr)
  from a obtain p q where
    acc1: "acc1 = (ps @ [p], ex(k \<mapsto> Some (Scalar (Text s))),
                fadd r (round2 (fmul (price_brutto p) q)), sk(ean p \<mapsto> price_brutto p))"
    by (auto simp: add_product_Inr)
  from Cons.IH [OF b [unfolded acc1]] show ?case by (cases "items = []") simp_all
qed

lemma create_order_json_Inr:
  assumes "create_order_json tz self status_id source_id mapping = Inr (oj, self')"
  shows "\<exists>items extras running skus g.
      extracted_data self ''Line_Items'' = Some (LineItems items) \<and>
      add_products (map_of mapping ''Sender Mail'') (sender_email (client_config self))
        ([], initial_extra_fields (extracted_data self) mapping, Fin 0, sku_map self)
        (butlast items) = Inr (products oj, extras, running, skus) \<and>
      custom_extra_fields oj = extras \<and>
      calculated_total self' = running \<and>
      grand_total_of items = Inr g \<and> \<not> fgt (fabs (fsub running g)) 5"
proof -
  from assms obtain items where
    items: "get_line_items (extracted_data self ''Line_Items'') = Inr items"
    unfolding create_order_json_def Let_def bind_eq_Inr by blast
  then have li: "extracted_data self ''Line_Items'' = Some (LineItems items)"
    by (cases "extracted_data self ''Line_Items''" rule: get_line_items.cases) simp_all
  from assms show ?thesis
    unfolding create_order_json_def Let_def li
    by (auto simp: bind_eq_Inr split: if_splits)
qed

lemma create_order_json_products:
  assumes "create_order_json tz self status_id source_id mapping = Inr (oj, self')"
      and "extracted_data self ''Line_Items'' = Some (LineItems items)"
  shows "items \<noteq> [] \<and> map make_product (butlast items) = map Inr (products oj)"
proof -
  from create_order_json_Inr [OF assms(1)] assms(2) obtain extras running skus g where
    loop: "add_products (map_of mapping ''Sender Mail'') (sender_email (client_config self))
        ([], initial_extra_fields (extracted_data self) mapping, Fin 0, sku_map self)
        (butlast items) = Inr (products oj, extras, running, skus)"
    and g: "grand_total_of items = Inr g"
    by auto
  from g have "items \<noteq> []" by (auto simp: grand_total_of_def)
  moreover from add_products_products [OF loop]
  have "map make_product (butlast items) = map Inr (products oj)" by simp
  ultimately show ?thesis by simp
qed

lemma strptime_dmy_error: "strptime_dmy s = Inl e \<Longrightarrow> e \<noteq> mismatch"
  by (auto simp: strptime_dmy_def mismatch_def Let_def split: list.splits if_splits prod.splits)

lemma value_str_error: "value_str v = Inl e \<Longrightarrow> e = AttributeError"
  by (cases v rule: value_str.cases) (auto elim: as_str.elims)

lemma convert_to_unix_error: "convert_to_unix tz v = Inl e \<Longrightarrow> e \<noteq> mismatch"
  by (auto simp: convert_to_unix_def bind_eq_Inl mismatch_def dest: value_str_error strptime_dmy_error [unfolded mismatch_def])

lemma get_address_error: "get_address v = Inl e \<Longrightarrow> e = AttributeError"
  by (cases v rule: get_address.cases) auto

lemma initial_extra_fields_lookup:
  assumes "(k0, sid) \<in> set mapping"
      and "\<forall>k. (k, sid) \<in> set mapping \<longrightarrow> extra_field_to_po_field_mapping k = None"
  shows "initial_extra_fields data mapping (Some sid) = Some None"
  using assms unfolding initial_extra_fields_def
proof (induction mapping rule: rev_induct)
  case Nil
  then show ?case by simp
next
  case (snoc x xs)
  obtain k v where x: "x = (k, v)" by (cases x)
  show ?case
  proof (cases "v = sid")
    case True
    with snoc.prems x show ?thesis by simp
  next
    case False
    with snoc.prems x have "(k0, sid) \<in> set xs"
      "\<forall>k. (k, sid) \<in> set xs \<longrightarrow> extra_field_to_po_field_mapping k = None" by auto
    from snoc.IH [OF this] False x show ?thesis by simp
  qed
qed




subsection \<open>The example order\<close>

lemma floor_rat_numeral: "\<lfloor>numeral a / numeral b :: rat\<rfloor> = numeral a div numeral b"
  using floor_divide_of_int_eq [of "numeral a" "numeral b", where ?'a = rat] by simp

lemma ceiling_rat_numeral: "\<lceil>numeral a / numeral b :: rat\<rceil> = - (- numeral a div numeral b)"
  using ceiling_divide_eq_div [of "numeral a" "numeral b", where ?'a = rat] by simp

lemma bitlen_rec: "0 < x \<Longrightarrow> bitlen x = bitlen (x div 2) + 1"
  by (subst compute_bitlen) simp

lemmas string_defs = strip_def lstrip_def rstrip_def is_space_def is_digit_def starts_with_def
  lower_def lower_char_def strip_ascii_def is_ascii_space_def
lemmas float_defs = to_float_def ulp_def exponent_def pow2_def round_half_even_def bitlen_rec
  floor_rat_numeral ceiling_rat_numeral
lemmas number_defs = float_of_string_def int_of_string_def split_sign_def parse_decimal_def
  digitpart_def parse_exponent_def scale10_def nat_of_digits_def digit_val_def float_defs

lemma example_date: "convert_to_unix utc (Some (Scalar (Text ''05-01-24''))) = Inr 1704412800"
  by (simp add: convert_to_unix_def string_defs strptime_dmy_def dmy_matches_def
        nonzero_digit_def nat_of_digits_def digit_val_def days_in_month_def is_leap_def
        mktime_def days_from_civil_def utc_def)

lemma example_tax: "tax_sum example_item (Fin 0) [''SGST/UTGST Rate'', ''CGST Rate'', ''IGST Rate''] = Inr (Fin (5 / 2))"
  by (simp add: example_item_def get_default_def string_defs number_defs)

lemma example_product:
  "make_product example_item =
     Inr \<lparr>name = Some (Text ''Rice''), ean = ''8901'', price_brutto = Fin 250,
          tax_rate = Fin (5 / 2), quantity = 4\<rparr>"
  unfolding make_product_def example_tax
  by (simp add: example_item_def get_default_def string_defs number_defs)

lemma example_quantity: "py_float (example_item (Text ''Quantity'')) = Inr (Fin 4)"
  by (simp add: example_item_def string_defs number_defs)

lemma example_grand_total_ok:
  "grand_total_of [example_item, example_total ''1003 INR''] = Inr (Fin 1003)"
  by (simp add: grand_total_of_def example_total_def string_defs number_defs)

lemma example_grand_total_bad:
  "grand_total_of [example_item, example_total ''1006 INR''] = Inr (Fin 1006)"
  by (simp add: grand_total_of_def example_total_def string_defs number_defs)

lemma example_grand_total_only:
  "grand_total_of [example_total ''0 INR''] = Inr (Fin 0)"
  by (simp add: grand_total_of_def example_total_def string_defs number_defs)

lemma example_loop:
  "add_products k s ([], ex, Fin 0, sk) (butlast [example_item, t]) =
     Inr ([\<lparr>name = Some (Text ''Rice''), ean = ''8901'', price_brutto = Fin 250,
             tax_rate = Fin (5 / 2), quantity = 4\<rparr>],
          ex(k \<mapsto> Some (Scalar (Text s))), Fin 1000, sk(''8901'' \<mapsto> Fin 250))"
  by (simp add: add_product_def example_product example_quantity float_defs)

lemma example_addresses:
  "get_address (extracted_data (example_parser items) ''shipped_to_address'') = Inr example_address"
  "get_address (extracted_data (example_parser items) ''supplier_address'') = Inr example_address"
  "get_address (extracted_data (example_parser items) ''billed_to_address'') = Inr example_address"
  "extracted_data (example_parser items) ''Line_Items'' = Some (LineItems items)"
  "convert_to_unix utc (extracted_data (example_parser items) ''order_date'') = Inr 1704412800"
  by (simp_all add: example_parser_def example_date)

lemma example_loop_plain:
  "add_products k s ([], ex, Fin 0, sk) [example_item] =
     Inr ([\<lparr>name = Some (Text ''Rice''), ean = ''8901'', price_brutto = Fin 250,
             tax_rate = Fin (5 / 2), quantity = 4\<rparr>],
          ex(k \<mapsto> Some (Scalar (Text s))), Fin 1000, sk(''8901'' \<mapsto> Fin 250))"
  using example_loop [of k s ex sk] by simp

lemma example_sender:
  "sender_email (client_config (example_parser items)) = ''po@example.com''"
  by (simp add: example_parser_def)

lemma example_order_ok:
  "\<exists>oj self'. create_order_json utc (example_parser [example_item, example_total ''1003 INR''])
        7 ''src'' example_mapping = Inr (oj, self')"
  by (simp add: create_order_json_def Let_def example_addresses example_loop_plain
        example_grand_total_ok fsub_def float_defs del: add_products.simps)

lemma example_order_total_only:
  "\<exists>oj self'. create_order_json utc (example_parser [example_total ''0 INR''])
        7 ''src'' example_mapping = Inr (oj, self')"
  by (simp add: create_order_json_def Let_def example_addresses example_grand_total_only fsub_def
        float_defs)









subsection \<open>The claims on order assembly\<close>



text \<open>
  C3. When the assembly returns an order, the line items are not empty and the products
  are exactly the line items before the last one, converted in order: the last line item
  is never converted, and a table of one row yields no product.
\<close>

theorem last_item_never_product:
  assumes "create_order_json tz self status_id source_id mapping = Inr (oj, self')"
      and "extracted_data self ''Line_Items'' = Some (LineItems items)"
  shows "items \<noteq> [] \<and> map make_product (butlast items) = map Inr (products oj) \<and>
         length (products oj) = length items - 1 \<and>
         (length items = 1 \<longrightarrow> products oj = [])"
proof -
  from create_order_json_products [OF assms]
  have ne: "items \<noteq> []" and m: "map make_product (butlast items) = map Inr (products oj)"
    by simp_all
  from arg_cong [OF m, of length] have "length (products oj) = length items - 1" by simp
  with ne m show ?thesis by auto
qed

theorem last_item_never_product_witness:
  "map make_product [example_item] =
     map Inr (products (fst (projr (create_order_json utc
        (example_parser [example_item, example_total ''1003 INR'']) 7 ''src'' example_mapping))))"
proof -
  from example_order_ok obtain oj self' where
    r: "create_order_json utc (example_parser [example_item, example_total ''1003 INR''])
        7 ''src'' example_mapping = Inr (oj, self')" by blast
  from last_item_never_product [OF r example_addresses(4)] show ?thesis
    by (simp add: r)
qed

text \<open>
  C9. When the list of line items is empty, the assembly raises an error that is not the
  reconciliation mismatch, and returns no order.
\<close>

theorem empty_line_items_raise:
  assumes "extracted_data self ''Line_Items'' = Some (LineItems [])"
  shows "\<exists>e. create_order_json tz self status_id source_id mapping = Inl e \<and> e \<noteq> mismatch"
proof -
  let ?r = "create_order_json tz self status_id source_id mapping"
  have "?r = Inl IndexError \<or> (\<exists>e. ?r = Inl e \<and> e \<noteq> mismatch)"
    unfolding create_order_json_def Let_def assms
    by (auto simp: bind_def grand_total_of_def mismatch_def split: sum.splits
             dest: get_address_error convert_to_unix_error [unfolded mismatch_def])
  then show ?thesis by (auto simp: mismatch_def)
qed

theorem empty_line_items_raise_witness:
  "create_order_json utc (example_parser []) 7 ''src'' example_mapping = Inl IndexError"
proof -
  from empty_line_items_raise [of "example_parser []" utc 7 "''src''" example_mapping]
  obtain e where "create_order_json utc (example_parser []) 7 ''src'' example_mapping = Inl e"
    by (auto simp: example_parser_def)
  then show ?thesis
    by (simp add: create_order_json_def example_addresses grand_total_of_def)
qed

text \<open>
  C10, as stated, fails: for a table of one grand-total row and no product row the order
  is returned with no product, and the identifier of the sender-mail field is still a key
  of the custom extra fields, bound to \<open>None\<close>.
\<close>

theorem sender_mail_key_without_products:
  "\<not> isl (create_order_json utc (example_parser [example_total ''0 INR'']) 7 ''src'' example_mapping) \<and>
   products (fst (projr (create_order_json utc (example_parser [example_total ''0 INR''])
      7 ''src'' example_mapping))) = [] \<and>
   map_of example_mapping ''Sender Mail'' = Some 3 \<and>
   custom_extra_fields (fst (projr (create_order_json utc (example_parser [example_total ''0 INR''])
      7 ''src'' example_mapping))) (Some 3) = Some None"
  by (simp add: create_order_json_def Let_def example_addresses example_grand_total_only fsub_def
        float_defs example_mapping_def initial_extra_fields_def extra_field_to_po_field_mapping_def)

text \<open>
  C10, amended. In a returned order the identifier that the mapping gives for the sender
  mail (when no other resolved field has that identifier) is always a key of the custom
  extra fields; its value is the sender's address if and only if at least one product was
  created, and \<open>None\<close> otherwise.
\<close>

theorem sender_mail_field:
  assumes "create_order_json tz self status_id source_id mapping = Inr (oj, self')"
      and "map_of mapping ''Sender Mail'' = Some sid"
      and "\<forall>k. (k, sid) \<in> set mapping \<longrightarrow> k = ''Sender Mail''"
  shows "custom_extra_fields oj (Some sid) =
           Some (if products oj = [] then None
                 else Some (Scalar (Text (sender_email (client_config self)))))"
proof -
  from create_order_json_Inr [OF assms(1)] obtain items extras running skus where
    loop: "add_products (Some sid) (sender_email (client_config self))
        ([], initial_extra_fields (extracted_data self) mapping, Fin 0, sku_map self)
        (butlast items) = Inr (products oj, extras, running, skus)"
    and ex: "custom_extra_fields oj = extras"
    by (auto simp: assms(2))
  from add_products_products [OF loop] have "length (butlast items) = length (products oj)"
    by (metis append_Nil length_map)
  then have empty: "products oj = [] \<longleftrightarrow> butlast items = []"
    by (metis length_0_conv)
  have "(''Sender Mail'', sid) \<in> set mapping"
    using assms(2) by (rule map_of_SomeD)
  moreover have "\<forall>k. (k, sid) \<in> set mapping \<longrightarrow> extra_field_to_po_field_mapping k = None"
    using assms(3) by (auto simp: extra_field_to_po_field_mapping_def)
  ultimately have init: "initial_extra_fields (extracted_data self) mapping (Some sid) = Some None"
    by (rule initial_extra_fields_lookup)
  from add_products_extras [OF loop] ex init empty show ?thesis by simp
qed

theorem sender_mail_field_witness:
  "custom_extra_fields (fst (projr (create_order_json utc
      (example_parser [example_item, example_total ''1003 INR'']) 7 ''src'' example_mapping)))
      (Some 3) = Some (Some (Scalar (Text ''po@example.com'')))"
proof -
  from example_order_ok obtain oj self' where
    r: "create_order_json utc (example_parser [example_item, example_total ''1003 INR''])
        7 ''src'' example_mapping = Inr (oj, self')" by blast
  have m: "map_of example_mapping ''Sender Mail'' = Some 3"
    and u: "\<forall>k. (k, 3) \<in> set example_mapping \<longrightarrow> k = ''Sender Mail''"
    by (simp_all add: example_mapping_def)
  from create_order_json_products [OF r example_addresses(4)] have "products oj \<noteq> []"
    by auto
  with sender_mail_field [OF r m u] show ?thesis
    by (simp add: r example_sender)
qed


section \<open>Properties of the date conversion\<close>







































section \<open>Properties of the document scan\<close>

lemma scan_cells_found:
  "snd (scan_cells row i cells data) = list_ex (has_marker ''ORDER DETAILS'') cells"
  by (induction cells arbitrary: i data) (simp_all add: Let_def)

lemma scan_rows_Cons:
  "row \<noteq> [] \<Longrightarrow>
   scan_rows (row # rows) i data =
     (if is_text (hd row)
      then (if list_ex (has_marker ''ORDER DETAILS'') row
            then Inr (fst (scan_cells row 0 row data), i)
            else scan_rows rows (i + 1) (fst (scan_cells row 0 row data)))
      else scan_rows rows (i + 1) data)"
proof -
  assume "row \<noteq> []"
  then obtain first rest where row: "row = first # rest" by (cases row) auto
  obtain d f where c: "scan_cells row 0 row data = (d, f)" by (cases "scan_cells row 0 row data")
  from scan_cells_found [of row 0 row data] c
  have f: "f = list_ex (has_marker ''ORDER DETAILS'') row" by simp
  have "scan_rows (row # rows) i data =
     (if is_text first
      then (case scan_cells row 0 row data of
              (data', found) \<Rightarrow>
                if found then Inr (data', i) else scan_rows rows (i + 1) data')
      else scan_rows rows (i + 1) data)"
    unfolding row by (simp only: scan_rows.simps list.case)
  also have "\<dots> = (if is_text (hd row)
      then (if list_ex (has_marker ''ORDER DETAILS'') row
            then Inr (fst (scan_cells row 0 row data), i)
            else scan_rows rows (i + 1) (fst (scan_cells row 0 row data)))
      else scan_rows rows (i + 1) data)"
    unfolding c f [symmetric] by (simp add: row)
  finally show ?thesis .
qed

lemma scan_rows_none:
  assumes "\<forall>row\<in>set rows. row \<noteq> []" and "\<forall>row\<in>set rows. \<not> boundary_row row"
  shows "scan_rows rows i data = Inl missing_section"
  using assms
proof (induction rows arbitrary: i data)
  case Nil
  then show ?case by simp
next
  case (Cons row rows)
  from Cons.prems have ne: "row \<noteq> []" and nb: "\<not> boundary_row row" by simp_all
  have rec: "\<And>i data. scan_rows rows i data = Inl missing_section"
    using Cons.IH Cons.prems by simp
  from nb ne show ?case
    unfolding scan_rows_Cons [OF ne] rec boundary_row_def by simp
qed

lemma scan_rows_first:
  assumes "\<forall>row\<in>set pre. row \<noteq> [] \<and> \<not> boundary_row row" and "boundary_row b"
  shows "\<exists>data'. scan_rows (pre @ b # post) i data = Inr (data', i + length pre) \<and>
                  scan_rows (pre @ [b]) i data = Inr (data', i + length pre)"
  using assms
proof (induction pre arbitrary: i data)
  case Nil
  from Nil.prems have ne: "b \<noteq> []" and t: "is_text (hd b)"
    and m: "list_ex (has_marker ''ORDER DETAILS'') b"
    by (simp_all add: boundary_row_def)
  show ?case unfolding append_Nil scan_rows_Cons [OF ne] using t m by simp
next
  case (Cons row pre)
  from Cons.prems have ne: "row \<noteq> []" and nb: "\<not> boundary_row row" by simp_all
  have rec: "\<And>i data. \<exists>data'. scan_rows (pre @ b # post) i data = Inr (data', i + length pre) \<and>
                  scan_rows (pre @ [b]) i data = Inr (data', i + length pre)"
    using Cons.IH Cons.prems by simp
  show ?case
  proof (cases "is_text (hd row)")
    case True
    with nb ne have nm: "\<not> list_ex (has_marker ''ORDER DETAILS'') row"
      by (simp add: boundary_row_def)
    from rec [of "i + 1" "fst (scan_cells row 0 row data)"] show ?thesis
      unfolding append_Cons scan_rows_Cons [OF ne] using True nm by simp
  next
    case False
    from rec [of "i + 1" data] show ?thesis
      unfolding append_Cons scan_rows_Cons [OF ne] using False by simp
  qed
qed

text \<open>
  C2. For a frame whose rows have at least one cell, the scan raises the missing-section
  error if and only if no row with text in its first cell holds the marker
  \<open>ORDER DETAILS\<close> in one of its cells; otherwise it returns, the boundary is the index of
  the first such row, and the rows after it are not scanned: the frame cut after the
  boundary gives the same result.
\<close>

theorem scan_boundary:
  assumes "\<forall>row\<in>set df. row \<noteq> []"
  shows "(\<not> (\<exists>row\<in>set df. boundary_row row) \<longrightarrow>
            extract_order_details self df = Inl missing_section) \<and>
         ((\<exists>row\<in>set df. boundary_row row) \<longrightarrow>
            (\<exists>self'. extract_order_details self df = Inr self' \<and>
               order_details_index self' < length df \<and>
               boundary_row (df ! order_details_index self') \<and>
               (\<forall>j < order_details_index self'. \<not> boundary_row (df ! j)) \<and>
               extract_order_details self (take (Suc (order_details_index self')) df) = Inr self'))"
proof (intro conjI impI)
  assume "\<not> (\<exists>row\<in>set df. boundary_row row)"
  with assms have "scan_rows df 0 (extracted_data self) = Inl missing_section"
    by (intro scan_rows_none) auto
  then show "extract_order_details self df = Inl missing_section"
    by (simp add: extract_order_details_def)
next
  assume "\<exists>row\<in>set df. boundary_row row"
  from split_list_first_prop [OF this]
  obtain pre b post where df: "df = pre @ b # post" and b: "boundary_row b"
    and pre: "\<forall>row\<in>set pre. \<not> boundary_row row"
    by blast
  from assms df pre have "\<forall>row\<in>set pre. row \<noteq> [] \<and> \<not> boundary_row row" by simp
  from scan_rows_first [OF this b, of post 0 "extracted_data self"] obtain data' where
    1: "scan_rows df 0 (extracted_data self) = Inr (data', length pre)" and
    2: "scan_rows (pre @ [b]) 0 (extracted_data self) = Inr (data', length pre)"
    unfolding df by auto
  let ?self' = "self\<lparr>extracted_data := data', order_details_index := length pre\<rparr>"
  have t: "take (Suc (length pre)) df = pre @ [b]" by (simp add: df)
  have "extract_order_details self df = Inr ?self'"
    using 1 by (simp add: extract_order_details_def)
  moreover have "order_details_index ?self' < length df" by (simp add: df)
  moreover have "boundary_row (df ! order_details_index ?self')" using b by (simp add: df)
  moreover have "\<forall>j < order_details_index ?self'. \<not> boundary_row (df ! j)"
    using pre by (simp add: df nth_append)
  moreover have "extract_order_details self (take (Suc (order_details_index ?self')) df) = Inr ?self'"
    using 2 by (simp add: extract_order_details_def t)
  ultimately show "\<exists>self'. extract_order_details self df = Inr self' \<and>
               order_details_index self' < length df \<and>
               boundary_row (df ! order_details_index self') \<and>
               (\<forall>j < order_details_index self'. \<not> boundary_row (df ! j)) \<and>
               extract_order_details self (take (Suc (order_details_index self')) df) = Inr self'"
    by (intro exI [of _ ?self'] conjI)
qed

lemma example_grid_boundary:
  "map boundary_row example_grid = [False, False, True, False, False, False, False]"
  by (simp add: example_grid_def boundary_row_def starts_with_def)

theorem scan_boundary_witness:
  "extract_order_details (example_parser []) (take 2 example_grid) = Inl missing_section \<and>
   (\<exists>self'. extract_order_details (example_parser []) example_grid = Inr self' \<and>
      order_details_index self' = 2 \<and>
      extract_order_details (example_parser []) (take 3 example_grid) = Inr self')"
proof
  have "\<forall>row\<in>set (take 2 example_grid). row \<noteq> []"
    by (simp add: example_grid_def)
  moreover have "\<not> (\<exists>row\<in>set (take 2 example_grid). boundary_row row)"
    by (simp add: example_grid_def boundary_row_def starts_with_def)
  ultimately show "extract_order_details (example_parser []) (take 2 example_grid) = Inl missing_section"
    using scan_boundary [of "take 2 example_grid" "example_parser []"] by blast
next
  have ne: "\<forall>row\<in>set example_grid. row \<noteq> []"
    by (simp add: example_grid_def)
  have b: "\<exists>row\<in>set example_grid. boundary_row row"
    by (simp add: example_grid_def boundary_row_def starts_with_def)
  from scan_boundary [OF ne, of "example_parser []"] b obtain self' where
    r: "extract_order_details (example_parser []) example_grid = Inr self'" and
    l: "order_details_index self' < length example_grid" and
    br: "boundary_row (example_grid ! order_details_index self')" and
    t: "extract_order_details (example_parser []) (take (Suc (order_details_index self')) example_grid) = Inr self'"
    by blast
  from l have "order_details_index self' < 7" by (simp add: example_grid_def)
  then have "order_details_index self' \<in> {0, 1, 2, 3, 4, 5, 6}" by auto
  moreover from br l have "map boundary_row example_grid ! order_details_index self'" by simp
  ultimately have i: "order_details_index self' = 2"
    unfolding example_grid_boundary by auto
  with r t show "\<exists>self'. extract_order_details (example_parser []) example_grid = Inr self' \<and>
      order_details_index self' = 2 \<and>
      extract_order_details (example_parser []) (take 3 example_grid) = Inr self'"
    by (auto simp: eval_nat_numeral)
qed


section \<open>Properties of the line-item table\<close>

lemma find_notification_None:
  "find_notification to_string rows i = None \<longleftrightarrow>
     (\<forall>row\<in>set rows. \<not> contains ''Important Notification'' (to_string row))"
  by (induction rows arbitrary: i) simp_all

text \<open>
  C5, on the code. When no row after the boundary renders with the notification marker,
  \<open>_process_line_items\<close> does not return: it raises \<open>TypeError\<close> at the row of the totals
  (\<open>IndexError\<close> when there is no row after the boundary at all), after the whole region was
  taken as the table.
\<close>

theorem line_items_without_marker:
  assumes "\<forall>row\<in>set (drop (Suc (order_details_index self)) df).
             \<not> contains ''Important Notification'' (to_string row)"
  shows "process_line_items to_string self df =
           Inl (if drop (Suc (order_details_index self)) df = [] then IndexError else TypeError)"
proof -
  define t where "t = drop (order_details_index self + 1) df"
  then have t: "drop (Suc (order_details_index self)) df = t" by simp
  from assms have fn: "find_notification to_string t 0 = None"
    unfolding t by (simp only: find_notification_None)
  show ?thesis
    unfolding t process_line_items_def Let_def t_def [symmetric] fn
    by (cases t) simp_all
qed

theorem line_items_without_marker_witness:
  "process_line_items plain_to_string ((example_parser [])\<lparr>order_details_index := 2\<rparr>)
     (take 6 example_grid) = Inl TypeError"
proof -
  have "\<forall>row\<in>set (drop 3 (take 6 example_grid)).
          \<not> contains ''Important Notification'' (plain_to_string row)"
    by (simp add: example_grid_def plain_to_string_def starts_with_def)
  with line_items_without_marker [of "(example_parser [])\<lparr>order_details_index := 2\<rparr>"
      "take 6 example_grid" plain_to_string]
  show ?thesis by (simp add: example_grid_def)
qed


section \<open>Properties of the extra fields\<close>

lemma send_error_email_raises: "\<exists>e sent'. send_error_email deliver msg sent = (Inl e, sent')"
  by (simp add: send_error_email_def)

lemma find_field_None:
  "find_field response field = Inr None \<Longrightarrow>
     \<not> (\<exists>item\<in>set response. field_name item = Some field)"
  by (induction response) (auto split: option.splits if_splits)

lemma find_field_Some:
  "find_field response field = Inr (Some item) \<Longrightarrow>
     item \<in> set response \<and> field_name item = Some field"
  by (induction response) (auto split: option.splits if_splits)

lemma find_field_total:
  "\<forall>item\<in>set response. field_name item \<noteq> None \<Longrightarrow>
     find_field response field =
       Inr (find (\<lambda>item. field_name item = Some field) response)"
  by (induction response) (auto split: option.splits)

text \<open>The names the response does not resolve.\<close>

lemma resolve_fields_missing:
  "resolve_fields response names (m, missing) = Inr (m', missing') \<Longrightarrow>
     missing' = missing @ filter (\<lambda>f. \<not> (\<exists>item\<in>set response. field_name item = Some f)) names"
proof (induction names arbitrary: m missing)
  case Nil
  then show ?case by simp
next
  case (Cons f names)
  from Cons.prems obtain entry where e: "find_field response f = Inr entry"
    by (auto simp: bind_eq_Inr)
  show ?case
  proof (cases entry)
    case None
    with e have "\<not> (\<exists>item\<in>set response. field_name item = Some f)"
      by (simp add: find_field_None)
    moreover from Cons.prems e None
    have "resolve_fields response names (m, missing @ [f]) = Inr (m', missing')" by simp
    from Cons.IH [OF this] have "missing' = (missing @ [f]) @
      filter (\<lambda>f. \<not> (\<exists>item\<in>set response. field_name item = Some f)) names" .
    ultimately show ?thesis by simp
  next
    case (Some item)
    with e have "\<exists>item\<in>set response. field_name item = Some f"
      using find_field_Some by blast
    moreover from Cons.prems e Some obtain i where
      "resolve_fields response names (dict_set m f i, missing) = Inr (m', missing')"
      by (auto split: option.splits)
    from Cons.IH [OF this] have "missing' = missing @
      filter (\<lambda>f. \<not> (\<exists>item\<in>set response. field_name item = Some f)) names" .
    ultimately show ?thesis by simp
  qed
qed

lemma resolve_fields_total:
  "\<forall>item\<in>set response. field_name item \<noteq> None \<and> extra_field_id item \<noteq> None \<Longrightarrow>
     \<exists>r. resolve_fields response names acc = Inr r"
proof (induction names arbitrary: acc)
  case Nil
  then show ?case by simp
next
  case (Cons f names)
  obtain m missing where acc: "acc = (m, missing)" by (cases acc)
  from Cons.prems have ff: "find_field response f =
       Inr (find (\<lambda>item. field_name item = Some f) response)"
    by (intro find_field_total) simp
  show ?case
  proof (cases "find (\<lambda>item. field_name item = Some f) response")
    case None
    with ff acc Cons.IH [OF Cons.prems] show ?thesis by simp
  next
    case (Some item)
    then have "item \<in> set response" by (auto simp: find_Some_iff)
    with Cons.prems obtain i where "extra_field_id item = Some i" by auto
    with ff acc Some Cons.IH [OF Cons.prems] show ?thesis by simp
  qed
qed

text \<open>
  C6, amended. A required extra-field name that the response does not resolve is fatal:
  \<open>_process_extra_fields\<close> raises and returns no mapping. When every entry of the response
  has a name and an identifier and the transport accepts the mails, the error mail and the
  support mail are sent, both listing the unresolved names, and the exception raised is the
  \<open>ValueError\<close> with that message.
\<close>

theorem missing_extra_field_is_fatal:
  assumes "f \<in> set extra_fields"
      and "\<not> (\<exists>item\<in>set (case data ''extra_fields'' of None \<Rightarrow> [] | Some l \<Rightarrow> l).
                field_name item = Some f)"
  shows "(\<exists>e. fst (process_extra_fields deliver data extra_fields sent) = Inl e) \<and>
         ((\<forall>item\<in>set (case data ''extra_fields'' of None \<Rightarrow> [] | Some l \<Rightarrow> l).
              field_name item \<noteq> None \<and> extra_field_id item \<noteq> None) \<and> (\<forall>n. deliver n) \<longrightarrow>
          (let message = missing_message (filter (\<lambda>f.
                 \<not> (\<exists>item\<in>set (case data ''extra_fields'' of None \<Rightarrow> [] | Some l \<Rightarrow> l).
                      field_name item = Some f)) extra_fields)
           in process_extra_fields deliver data extra_fields sent =
                (Inl (ValueError message), sent @ [ErrorMail message, SupportMail message])))"
proof -
  define response where "response = (case data ''extra_fields'' of None \<Rightarrow> [] | Some l \<Rightarrow> l)"
  define unresolved where
    "unresolved = filter (\<lambda>f. \<not> (\<exists>item\<in>set response. field_name item = Some f)) extra_fields"
  from assms have ne: "unresolved \<noteq> []"
    unfolding unresolved_def response_def by (auto simp: filter_empty_conv)
  have missing: "resolve_fields response extra_fields ([], []) = Inr (m, missing) \<Longrightarrow>
      missing = unresolved" for m missing
    using resolve_fields_missing [of response extra_fields "[]" "[]" m missing]
    by (simp add: unresolved_def)
  have 1: "\<exists>e. fst (process_extra_fields deliver data extra_fields sent) = Inl e"
  proof (cases "resolve_fields response extra_fields ([], [])")
    case (Inl e)
    then show ?thesis
      by (simp add: process_extra_fields_def response_def [symmetric])
  next
    case (Inr r)
    obtain m missing where r: "r = (m, missing)" by (cases r)
    with Inr missing ne have "missing \<noteq> []" by simp
    moreover obtain e sent' where
      "send_error_email deliver (missing_message missing) sent = (Inl e, sent')"
      using send_error_email_raises by blast
    ultimately show ?thesis using Inr r
      by (simp add: process_extra_fields_def response_def [symmetric])
  qed
  have 2: "process_extra_fields deliver data extra_fields sent =
      (Inl (ValueError (missing_message unresolved)),
       sent @ [ErrorMail (missing_message unresolved), SupportMail (missing_message unresolved)])"
    if ok: "\<forall>item\<in>set response. field_name item \<noteq> None \<and> extra_field_id item \<noteq> None"
      and d: "\<forall>n. deliver n"
  proof -
    from resolve_fields_total [OF ok] obtain m missing where
      r: "resolve_fields response extra_fields ([], []) = Inr (m, missing)" by fastforce
    with missing have "missing = unresolved" by simp
    with r ne d show ?thesis
      by (simp add: process_extra_fields_def response_def [symmetric] send_error_email_def)
  qed
  from 1 2 show ?thesis
    unfolding Let_def response_def [symmetric] unresolved_def [symmetric] by blast
qed

lemma example_response_fields:
  "(case example_response ''extra_fields'' of None \<Rightarrow> [] | Some l \<Rightarrow> l) =
     [\<lparr>field_name = Some ''PO Number'', extra_field_id = Some 1\<rparr>,
      \<lparr>field_name = Some ''PO Expiry'', extra_field_id = Some 2\<rparr>]"
  by (simp add: example_response_def)

theorem missing_extra_field_is_fatal_witness:
  "process_extra_fields (\<lambda>n. True) example_response
     [''PO Number'', ''PO Expiry'', ''Sender Mail''] [] =
   (Inl (ValueError ''Missing fields in response: Sender Mail''),
    [ErrorMail ''Missing fields in response: Sender Mail'',
     SupportMail ''Missing fields in response: Sender Mail''])"
  using missing_extra_field_is_fatal [of "''Sender Mail''"
      "[''PO Number'', ''PO Expiry'', ''Sender Mail'']" example_response "\<lambda>n. True" "[]"]
  by (simp add: example_response_fields missing_message_def Let_def)

text \<open>
  C6, as stated, fails: with the sender-mail field unresolved no mapping of the remaining
  fields is returned; the function raises.
\<close>

theorem unresolved_field_raises:
  "fst (process_extra_fields (\<lambda>n. True) example_response
          [''PO Number'', ''PO Expiry'', ''Sender Mail''] []) =
     Inl (ValueError ''Missing fields in response: Sender Mail'')"
  by (simp add: process_extra_fields_def example_response_fields send_error_email_def
        missing_message_def)

end
